theory Spec2Isabelle
  imports Main "HOL-Library.Word"
begin

section \<open>Data model of sessions.go\<close>

text \<open>A Go \<open>error\<close> value, identified by its message.\<close>

datatype error = GoError string

text \<open>\<open>err.Error()\<close>: the message of an error.\<close>

fun Error :: "error \<Rightarrow> string" where
  "Error (GoError m) = m"

type_synonym byte = "8 word"

text \<open>
  The dynamically typed values (\<open>interface{}\<close>) held in \<open>session.Values\<close>.
  The program stores booleans and strings; \<open>VInt\<close> stands for a value of any other type
  that a decoded cookie may carry.
\<close>

datatype val = VBool bool | VString string | VInt int

record Endpoint =
  AuthURL :: string
  TokenURL :: string

record OauthConfig =
  RedirectURL :: string
  ClientID :: string
  ClientSecret :: string
  Scopes :: "string list"
  Endpoint :: Endpoint

record Token =
  AccessToken :: string
  Expiry :: int

record SessionOptions =
  Path :: string
  MaxAge :: int

record CookieStore =
  Codecs :: string
  StoreOptions :: SessionOptions

record Session =
  Name :: string
  Values :: "string \<rightharpoonup> val"
  Options :: SessionOptions
  IsNew :: bool

text \<open>The struct \<open>Auth\<close> (sessions.go, lines 34-38).\<close>

record Auth =
  googleOauthConfig :: OauthConfig
  oauthStateString :: string
  store :: CookieStore

text \<open>The anonymous struct \<open>userInfo\<close> of \<open>handleGoogleCallback\<close> (lines 169-177).\<close>

record UserInfo =
  ID :: string
  Email :: string
  VerifiedEmail :: bool
  Picture :: string
  FullName :: string
  FirstName :: string
  LastName :: string

definition zeroUserInfo :: UserInfo where
  "zeroUserInfo = \<lparr>ID = [], Email = [], VerifiedEmail = False, Picture = [],
     FullName = [], FirstName = [], LastName = []\<rparr>"

text \<open>
  What a request carries under a cookie name: a value that passes the store's integrity
  check and decodes to a value bag, or one that does not.
\<close>

datatype payload = Intact "string \<rightharpoonup> val" | Tampered

record Request =
  Form :: "string \<rightharpoonup> string"
  Cookies :: "string \<rightharpoonup> payload"

text \<open>The cookie written by a successful save: name, value bag and options.\<close>

record Cookie =
  cookieName :: string
  cookieValues :: "string \<rightharpoonup> val"
  cookieOptions :: SessionOptions

text \<open>
  Everything a handler does besides computing: log lines and prints (identified by the
  literal text of the source), calls to the collaborators, and writes to the
  \<open>http.ResponseWriter\<close>, in the order of execution.
\<close>

datatype event =
    Log string
  | Print string
  | RandRead nat
  | Exchange string
  | GetUserInfo string
  | HttpGet string
  | SessionSave Session
  | SetCookie Cookie
  | Redirect string nat
  | HttpError string nat
  | Handler

text \<open>
  The collaborators outside the repository, as parameters:
  \<^item> \<open>randRead b\<close>: \<open>crypto/rand.Read(b)\<close>, the filled buffer or an error;
  \<^item> \<open>authCodeURL c s\<close>: \<open>(*oauth2.Config).AuthCodeURL(s)\<close>;
  \<^item> \<open>exchange c code\<close>: \<open>(*oauth2.Config).Exchange(ctx, code)\<close>, a token or an error
    (the library returns a nil token with every error);
  \<^item> \<open>tokenValid t\<close>: \<open>(*oauth2.Token).Valid()\<close> on a token that is not nil;
  \<^item> \<open>httpGet url\<close>: \<open>http.Get(url)\<close> followed by \<open>ioutil.ReadAll\<close> of the body:
    the outer error is that of the request, the inner one that of reading the body;
  \<^item> \<open>unmarshalUserInfo data\<close>: \<open>json.Unmarshal(data, &userInfo)\<close> on the zero struct
    and a non-empty input: the struct as it is left, and the error if any;
  \<^item> \<open>encodeErr vs\<close>: the error of encoding and signing the value bag \<open>vs\<close>, if any;
  \<^item> \<open>googleEndpoint\<close>: the constant \<open>google.Endpoint\<close>.
\<close>

record env =
  randRead :: "byte list \<Rightarrow> error + byte list"
  authCodeURL :: "OauthConfig \<Rightarrow> string \<Rightarrow> string"
  exchange :: "OauthConfig \<Rightarrow> string \<Rightarrow> error + Token"
  tokenValid :: "Token \<Rightarrow> bool"
  httpGet :: "string \<Rightarrow> error + (error + string)"
  unmarshalUserInfo :: "string \<Rightarrow> UserInfo \<times> error option"
  encodeErr :: "(string \<rightharpoonup> val) \<Rightarrow> error option"
  googleEndpoint :: Endpoint

section \<open>Library operations used by the handlers\<close>

text \<open>\<open>base64.URLEncoding.EncodeToString\<close>: the URL-safe alphabet, with padding.\<close>

definition encodeURL :: string where
  "encodeURL = ''ABCDEFGHIJKLMNOPQRSTUVWXYZabcdefghijklmnopqrstuvwxyz0123456789-_''"

definition enc :: "nat \<Rightarrow> char" where
  "enc v = encodeURL ! (v mod 64)"

fun EncodeToString :: "byte list \<Rightarrow> string" where
  "EncodeToString [] = []"
| "EncodeToString [a] =
     (let v = unat a * 65536
      in [enc (v div 262144), enc (v div 4096), CHR ''='', CHR ''=''])"
| "EncodeToString [a, b] =
     (let v = unat a * 65536 + unat b * 256
      in [enc (v div 262144), enc (v div 4096), enc (v div 64), CHR ''=''])"
| "EncodeToString (a # b # c # rest) =
     (let v = unat a * 65536 + unat b * 256 + unat c
      in [enc (v div 262144), enc (v div 4096), enc (v div 64), enc v] @ EncodeToString rest)"

text \<open>\<open>r.FormValue(key)\<close>: the empty string when the parameter is absent.\<close>

definition FormValue :: "Request \<Rightarrow> string \<Rightarrow> string" where
  "FormValue r key = (case Form r key of None \<Rightarrow> [] | Some v \<Rightarrow> v)"

text \<open>
  Modelled from the spec: \<open>(*sessions.CookieStore).Get\<close> of the session library, which is
  not part of the repository. Section 4.2, \<open>load\<close>: it retrieves, or lazily creates empty,
  the session under the cookie name, and fails with a decode error when the cookie is
  present but its integrity check fails; the session returned with the error is a new,
  empty one. A new session takes the options of the store.
\<close>

definition newSession :: "CookieStore \<Rightarrow> string \<Rightarrow> Session" where
  "newSession st name =
     \<lparr>Name = name, Values = Map.empty, Options = StoreOptions st, IsNew = True\<rparr>"

definition store_Get :: "CookieStore \<Rightarrow> Request \<Rightarrow> string \<Rightarrow> Session \<times> error option" where
  "store_Get st r name =
     (case Cookies r name of
        None \<Rightarrow> (newSession st name, None)
      | Some Tampered \<Rightarrow> (newSession st name, Some (GoError ''securecookie: the value is not valid''))
      | Some (Intact vs) \<Rightarrow> ((newSession st name)\<lparr>Values := vs, IsNew := False\<rparr>, None))"

text \<open>
  Modelled from the spec: \<open>(*sessions.Session).Save\<close> of the session library. Section 4.2,
  \<open>save\<close>: it serializes and emits the cookie, and fails on a signing failure, in which
  case nothing is emitted.
\<close>

definition session_Save :: "env \<Rightarrow> Session \<Rightarrow> event list \<times> error option" where
  "session_Save env s =
     (case encodeErr env (Values s) of
        Some err \<Rightarrow> ([SessionSave s], Some err)
      | None \<Rightarrow>
          ([SessionSave s,
            SetCookie \<lparr>cookieName = Name s, cookieValues = Values s, cookieOptions = Options s\<rparr>],
           None))"

text \<open>
  \<open>(*oauth2.Token).Valid()\<close>: false on the nil token, otherwise the library's own
  criteria (an access token that has not expired).
\<close>

definition token_Valid :: "env \<Rightarrow> Token option \<Rightarrow> bool" where
  "token_Valid env token = (case token of None \<Rightarrow> False | Some t \<Rightarrow> tokenValid env t)"

text \<open>
  \<open>(*oauth2.Config).Exchange\<close> as the Go pair \<open>(token, err)\<close>: the token is nil exactly
  when the error is not.
\<close>

definition config_Exchange :: "env \<Rightarrow> OauthConfig \<Rightarrow> string \<Rightarrow> Token option \<times> error option" where
  "config_Exchange env c code =
     (case exchange env c code of
        Inl err \<Rightarrow> (None, Some err)
      | Inr t \<Rightarrow> (Some t, None))"

text \<open>
  \<open>json.Unmarshal(data, &userInfo)\<close> on the zero struct. An empty input is rejected
  before the struct is touched.
\<close>

definition json_Unmarshal :: "env \<Rightarrow> string \<Rightarrow> UserInfo \<times> error option" where
  "json_Unmarshal env data =
     (if data = [] then (zeroUserInfo, Some (GoError ''unexpected end of JSON input''))
      else unmarshalUserInfo env data)"

section \<open>The functions of sessions.go\<close>

text \<open>\<open>createRandomKey\<close> (lines 20-30): the Go pair \<open>([]byte, error)\<close>, nil being \<open>[]\<close>.\<close>

definition createRandomKey :: "env \<Rightarrow> nat \<Rightarrow> byte list \<times> error option" where
  "createRandomKey env n =
     (let b = replicate n 0
      in case randRead env b of
           Inl err \<Rightarrow> ([], Some err)
         | Inr b' \<Rightarrow> (b', None))"

text \<open>\<open>newOauthConfig\<close> (lines 127-137) and \<open>NewAuth\<close> (lines 48-54).\<close>

definition newOauthConfig :: "env \<Rightarrow> string \<Rightarrow> string \<Rightarrow> string \<Rightarrow> string \<Rightarrow> string \<Rightarrow> OauthConfig" where
  "newOauthConfig env proto host port clientIDKey clientSecret =
     \<lparr>RedirectURL = proto @ ''://'' @ host @ '':'' @ port @ ''/callback'',
      ClientID = clientIDKey,
      ClientSecret = clientSecret,
      Scopes = [''https://www.googleapis.com/auth/userinfo.email'',
                ''https://www.googleapis.com/auth/userinfo.profile''],
      Endpoint = googleEndpoint env\<rparr>"

text \<open>\<open>sessions.NewCookieStore\<close>: the key, and the library's default options.\<close>

definition NewCookieStore :: "string \<Rightarrow> CookieStore" where
  "NewCookieStore key = \<lparr>Codecs = key, StoreOptions = \<lparr>Path = ''/'', MaxAge = 86400 * 30\<rparr>\<rparr>"

definition NewAuth :: "env \<Rightarrow> string \<Rightarrow> string \<Rightarrow> string \<Rightarrow> string \<Rightarrow> string \<Rightarrow> string \<Rightarrow> Auth \<times> CookieStore" where
  "NewAuth env proto host port cookieStoreKey clientIDKey clientSecret =
     (let st = NewCookieStore cookieStoreKey
      in (\<lparr>googleOauthConfig = newOauthConfig env proto host port clientIDKey clientSecret,
           oauthStateString = [],
           store = st\<rparr>, st))"

text \<open>
  \<open>login\<close> (lines 63-83). A handler returns the \<open>Auth\<close> value as it leaves it and the
  events of the call.
\<close>

definition login :: "env \<Rightarrow> Auth \<Rightarrow> Request \<Rightarrow> Auth \<times> event list" where
  "login env a r =
     (let (stateStringRAW, err) = createRandomKey env 16;
          t1 = RandRead 16 #
               (if err \<noteq> None then [Log ''error: failed to create state string: ''] else []);
          a' = a\<lparr>oauthStateString := EncodeToString stateStringRAW\<rparr>;
          url = authCodeURL env (googleOauthConfig a') (oauthStateString a')
      in (a', t1 @ [Redirect url 307]))"

text \<open>\<open>logout\<close> (lines 87-104).\<close>

definition logout :: "env \<Rightarrow> Auth \<Rightarrow> Request \<Rightarrow> Auth \<times> event list" where
  "logout env a r =
     (let (session, err) = store_Get (store a) r ''cookie-name'';
          t1 = (if err \<noteq> None then [Log ''error: store.Get in /logout: ''] else []);
          session' = session\<lparr>Values := (Values session)(''authenticated'' \<mapsto> VBool False)\<rparr>;
          (t2, err') = session_Save env session'
      in if err' \<noteq> None
         then (a, t1 @ t2 @ [Log ''error: session.Save on /logout: ''])
         else (a, t1 @ t2 @ [Redirect ''/'' 307]))"

text \<open>
  \<open>IsAuthenticated\<close> (lines 108-123). The wrapped handler \<open>h\<close> is given by the events it
  produces on a request; \<open>Handler\<close> marks its invocation.
\<close>

definition type_assert_bool :: "val option \<Rightarrow> bool \<times> bool" where
  "type_assert_bool v = (case v of Some (VBool b) \<Rightarrow> (b, True) | _ \<Rightarrow> (False, False))"

definition IsAuthenticated :: "env \<Rightarrow> Auth \<Rightarrow> (Request \<Rightarrow> event list) \<Rightarrow> Request \<Rightarrow> Auth \<times> event list" where
  "IsAuthenticated env a h r =
     (let (session, _) = store_Get (store a) r ''cookie-name'';
          email = Values session ''email'';
          (auth, ok) = type_assert_bool (Values session ''authenticated'')
      in if \<not> ok \<or> \<not> auth
         then (a, [HttpError ''Forbidden'' 403])
         else (a, [Log ''--- Authenticated user accessing page is : '', Handler] @ h r))"

text \<open>\<open>getUserInfo\<close> (lines 212-231): the events, and the Go pair \<open>([]byte, error)\<close>.\<close>

definition getUserInfo :: "env \<Rightarrow> Auth \<Rightarrow> string \<Rightarrow> Token \<Rightarrow> event list \<times> string \<times> error option" where
  "getUserInfo env a state token =
     (if state \<noteq> oauthStateString a
      then ([GetUserInfo state], [], Some (GoError ''invalid oauth state''))
      else
        let url = ''https://www.googleapis.com/oauth2/v2/userinfo?access_token='' @ AccessToken token;
            t1 = [GetUserInfo state, Print ''Token expire, '', HttpGet url]
        in case httpGet env url of
             Inl err \<Rightarrow> (t1, [], Some (GoError (''failed getting user info: '' @ Error err)))
           | Inr (Inl err) \<Rightarrow> (t1, [], Some (GoError (''failed reading response body: '' @ Error err)))
           | Inr (Inr contents) \<Rightarrow> (t1, contents, None))"

text \<open>\<open>handleGoogleCallback\<close> (lines 145-208).\<close>

definition handleGoogleCallback :: "env \<Rightarrow> Auth \<Rightarrow> Request \<Rightarrow> Auth \<times> event list" where
  "handleGoogleCallback env a r =
     (let state = FormValue r ''state'';
          code = FormValue r ''code'';
          (token, err) = config_Exchange env (googleOauthConfig a) code;
          t1 = Exchange code #
               (if err \<noteq> None then [Log ''code exchange failed: '', Redirect ''/'' 307] else []) @
               [Print ''--- state : '', Print ''--- code : '']
      in case token of
           None \<Rightarrow> (a, t1 @ [Log ''error: token not valid in callback function. Token value = ''])
         | Some tok \<Rightarrow>
             if \<not> token_Valid env token
             then (a, t1 @ [Log ''error: token not valid in callback function. Token value = ''])
             else
               let (t2, rawUserInfo, err2) = getUserInfo env a state tok;
                   t3 = (if err2 \<noteq> None then [Log ''error: getUserInfo failed: ''] else []);
                   (userInfo, err3) = json_Unmarshal env rawUserInfo;
                   t4 = (if err3 \<noteq> None then [Log ''error: marshall of the userInfo failed: ''] else []) @
                        [Print ''userInfo''];
                   (session, err4) = store_Get (store a) r ''cookie-name'';
                   t5 = (if err4 \<noteq> None then [Log ''error: store.Get in /login failed: ''] else []);
                   session' = session
                     \<lparr>Values := (Values session)
                        (''authenticated'' \<mapsto> VBool True,
                         ''id'' \<mapsto> VString (ID userInfo),
                         ''fullname'' \<mapsto> VString (FullName userInfo),
                         ''email'' \<mapsto> VString (Email userInfo),
                         ''state'' \<mapsto> VString state),
                      Options := \<lparr>Path = [], MaxAge = 60 * 60 * 8\<rparr>\<rparr>;
                   (t6, err5) = session_Save env session';
                   t = t1 @ t2 @ t3 @ t4 @ t5 @ t6
               in if err5 \<noteq> None
                  then (a, t @ [Log ''error: session.Save on /login: ''])
                  else (a, t @ [Redirect ''/'' 307]))"

section \<open>Observing a trace\<close>

text \<open>
  The response a client sees, following \<open>net/http\<close>: the first call that writes the header
  (\<open>http.Redirect\<close>, \<open>http.Error\<close>) fixes the status and the \<open>Location\<close>; a handler that
  writes nothing answers 200; a cookie set after the header is written is not sent.
\<close>

fun status_of :: "event list \<Rightarrow> nat \<times> string option" where
  "status_of [] = (200, None)"
| "status_of (Redirect url code # es) = (code, Some url)"
| "status_of (HttpError msg code # es) = (code, None)"
| "status_of (e # es) = status_of es"

fun cookies_sent :: "event list \<Rightarrow> Cookie list" where
  "cookies_sent [] = []"
| "cookies_sent (SetCookie c # es) = c # cookies_sent es"
| "cookies_sent (Redirect url code # es) = []"
| "cookies_sent (HttpError msg code # es) = []"
| "cookies_sent (e # es) = cookies_sent es"

text \<open>The sessions handed to \<open>session.Save\<close>, in order.\<close>

fun saved_sessions :: "event list \<Rightarrow> Session list" where
  "saved_sessions [] = []"
| "saved_sessions (SessionSave s # es) = s # saved_sessions es"
| "saved_sessions (e # es) = saved_sessions es"

text \<open>The value each saved session holds under a key.\<close>

definition saved_values :: "event list \<Rightarrow> string \<Rightarrow> val option list" where
  "saved_values t key = map (\<lambda>s. Values s key) (saved_sessions t)"

text \<open>The value each cookie sent holds under a key.\<close>

definition sent_values :: "event list \<Rightarrow> string \<Rightarrow> val option list" where
  "sent_values t key = map (\<lambda>c. cookieValues c key) (cookies_sent t)"

fun is_profile_fetch :: "event \<Rightarrow> bool" where
  "is_profile_fetch (GetUserInfo s) = True"
| "is_profile_fetch (HttpGet u) = True"
| "is_profile_fetch e = False"

fun is_session_save :: "event \<Rightarrow> bool" where
  "is_session_save (SessionSave s) = True"
| "is_session_save (SetCookie c) = True"
| "is_session_save e = False"

fun is_handler_call :: "event \<Rightarrow> bool" where
  "is_handler_call Handler = True"
| "is_handler_call e = False"

fun is_log :: "event \<Rightarrow> bool" where
  "is_log (Log m) = True"
| "is_log e = False"

text \<open>The events that write the response header.\<close>

fun writes_header :: "event \<Rightarrow> bool" where
  "writes_header (Redirect url code) = True"
| "writes_header (HttpError msg code) = True"
| "writes_header e = False"

text \<open>A trace that neither writes the header nor saves a session.\<close>

definition quiet :: "event list \<Rightarrow> bool" where
  "quiet t \<longleftrightarrow> \<not> list_ex writes_header t \<and> \<not> list_ex is_session_save t"

text \<open>
  The next request of a user agent that received the cookies of a response: it presents
  each of them, intact, under its name.
\<close>

definition next_request :: "Request \<Rightarrow> event list \<Rightarrow> Request" where
  "next_request r t =
     r\<lparr>Cookies := fold (\<lambda>c m. m(cookieName c \<mapsto> Intact (cookieValues c))) (cookies_sent t) (Cookies r)\<rparr>"

text \<open>The session that \<open>logout\<close> hands to \<open>Save\<close>, given the one it loaded.\<close>

definition revoked :: "Session \<Rightarrow> Session" where
  "revoked s = s\<lparr>Values := (Values s)(''authenticated'' \<mapsto> VBool False)\<rparr>"

section \<open>Concrete inputs\<close>

definition profile42 :: UserInfo where
  "profile42 = \<lparr>ID = ''42'', Email = ''a@b.com'', VerifiedEmail = True, Picture = [],
     FullName = ''A B'', FirstName = ''A'', LastName = ''B''\<rparr>"

text \<open>
  A provider that accepts the code \<open>abc\<close> and answers with the profile above, a random
  source that works, and a cookie encoder that never fails.
\<close>

definition env_ok :: env where
  "env_ok =
     \<lparr>randRead = (\<lambda>b. Inr (map (\<lambda>x. 165) b)),
      authCodeURL = (\<lambda>c s. AuthURL (Endpoint c) @ ''?state='' @ s),
      exchange = (\<lambda>c code. if code = ''abc'' then Inr \<lparr>AccessToken = ''tok'', Expiry = 0\<rparr>
                             else Inl (GoError ''invalid_grant'')),
      tokenValid = (\<lambda>t. AccessToken t \<noteq> []),
      httpGet = (\<lambda>url. Inr (Inr ''{profile}'')),
      unmarshalUserInfo = (\<lambda>data. (profile42, None)),
      encodeErr = (\<lambda>vs. None),
      googleEndpoint = \<lparr>AuthURL = ''https://accounts.google.com/o/oauth2/auth'',
                         TokenURL = ''https://oauth2.googleapis.com/token''\<rparr>\<rparr>"

text \<open>The same, with a random source that fails.\<close>

definition env_no_entropy :: env where
  "env_no_entropy = env_ok\<lparr>randRead := (\<lambda>b. Inl (GoError ''entropy source unavailable''))\<rparr>"

text \<open>The same, with a profile endpoint that cannot be reached.\<close>

definition env_no_profile :: env where
  "env_no_profile = env_ok\<lparr>httpGet := (\<lambda>url. Inl (GoError ''connection refused''))\<rparr>"

text \<open>The same, with a provider whose tokens are never valid.\<close>

definition env_invalid_token :: env where
  "env_invalid_token = env_ok\<lparr>tokenValid := (\<lambda>t. False)\<rparr>"

text \<open>The same, with a cookie encoder that always fails.\<close>

definition env_no_save :: env where
  "env_no_save = env_ok\<lparr>encodeErr := (\<lambda>vs. Some (GoError ''securecookie: the value is too long''))\<rparr>"

definition auth0 :: Auth where
  "auth0 = fst (NewAuth env_ok ''http'' ''localhost'' ''8080'' ''key'' ''client'' ''secret'')"

text \<open>The \<open>Auth\<close> value holding the state token \<open>S\<close>.\<close>

definition authS :: Auth where
  "authS = auth0\<lparr>oauthStateString := ''S''\<rparr>"

definition req_empty :: Request where
  "req_empty = \<lparr>Form = Map.empty, Cookies = Map.empty\<rparr>"

text \<open>Callbacks with the code \<open>abc\<close>: one with the state \<open>S\<close>, one with the state \<open>X\<close>.\<close>

definition req_callback_S :: Request where
  "req_callback_S = \<lparr>Form = [''state'' \<mapsto> ''S'', ''code'' \<mapsto> ''abc''], Cookies = Map.empty\<rparr>"

definition req_callback_X :: Request where
  "req_callback_X = \<lparr>Form = [''state'' \<mapsto> ''X'', ''code'' \<mapsto> ''abc''], Cookies = Map.empty\<rparr>"

text \<open>A callback with the state \<open>S\<close> and a code the provider refuses.\<close>

definition req_callback_bad_code :: Request where
  "req_callback_bad_code = \<lparr>Form = [''state'' \<mapsto> ''S'', ''code'' \<mapsto> ''zzz''], Cookies = Map.empty\<rparr>"

text \<open>The callback that follows a login: it carries the state token the login issued.\<close>

definition req_callback_issued :: Request where
  "req_callback_issued =
     \<lparr>Form = [''state'' \<mapsto> oauthStateString (fst (login env_ok auth0 req_empty)), ''code'' \<mapsto> ''abc''],
      Cookies = Map.empty\<rparr>"

text \<open>A request presenting the session of a logged-in user.\<close>

definition req_logged_in :: Request where
  "req_logged_in =
     \<lparr>Form = Map.empty,
      Cookies = [''cookie-name'' \<mapsto>
        Intact [''authenticated'' \<mapsto> VBool True, ''id'' \<mapsto> VString ''42'',
                ''fullname'' \<mapsto> VString ''A B'', ''email'' \<mapsto> VString ''a@b.com'',
                ''state'' \<mapsto> VString ''S'']]\<rparr>"

text \<open>A request whose session holds a string where the boolean is expected.\<close>

definition req_wrong_type :: Request where
  "req_wrong_type =
     \<lparr>Form = Map.empty,
      Cookies = [''cookie-name'' \<mapsto> Intact [''authenticated'' \<mapsto> VString ''true'']]\<rparr>"

section \<open>Lemmas on traces\<close>

lemma quiet_Nil: "quiet []"
  by (simp add: quiet_def)

lemma quiet_Cons: "quiet (e # t) \<longleftrightarrow> \<not> writes_header e \<and> \<not> is_session_save e \<and> quiet t"
  by (auto simp: quiet_def)

lemma quiet_append: "quiet (xs @ ys) \<longleftrightarrow> quiet xs \<and> quiet ys"
  by (auto simp: quiet_def list_ex_iff)

lemma quiet_status: "quiet xs \<Longrightarrow> status_of (xs @ ys) = status_of ys"
  by (induction xs rule: status_of.induct) (simp_all add: quiet_def)

lemma quiet_cookies: "quiet xs \<Longrightarrow> cookies_sent (xs @ ys) = cookies_sent ys"
  by (induction xs rule: cookies_sent.induct) (simp_all add: quiet_def)

lemma quiet_saved: "quiet xs \<Longrightarrow> saved_sessions (xs @ ys) = saved_sessions ys"
  by (induction xs rule: saved_sessions.induct) (simp_all add: quiet_def)

lemma getUserInfo_quiet: "quiet (fst (getUserInfo env a state tok))"
  by (simp add: getUserInfo_def quiet_Cons quiet_Nil Let_def split: sum.split)

section \<open>The paths of the callback\<close>

lemma callback_exchange_failed:
  assumes "exchange env (googleOauthConfig a) (FormValue r ''code'') = Inl err"
  shows "handleGoogleCallback env a r =
    (a, [Exchange (FormValue r ''code''), Log ''code exchange failed: '', Redirect ''/'' 307,
         Print ''--- state : '', Print ''--- code : '',
         Log ''error: token not valid in callback function. Token value = ''])"
  using assms by (simp add: handleGoogleCallback_def config_Exchange_def Let_def)

lemma callback_token_invalid:
  assumes "exchange env (googleOauthConfig a) (FormValue r ''code'') = Inr tok"
      and "\<not> tokenValid env tok"
  shows "handleGoogleCallback env a r =
    (a, [Exchange (FormValue r ''code''), Print ''--- state : '', Print ''--- code : '',
         Log ''error: token not valid in callback function. Token value = ''])"
  using assms by (simp add: handleGoogleCallback_def config_Exchange_def token_Valid_def Let_def)

lemma callback_token_valid:
  assumes ex: "exchange env (googleOauthConfig a) (FormValue r ''code'') = Inr tok"
      and valid: "tokenValid env tok"
  shows "\<exists>pre s. quiet pre \<and>
           handleGoogleCallback env a r =
             (a, pre @ fst (session_Save env s) @
               [if snd (session_Save env s) \<noteq> None then Log ''error: session.Save on /login: ''
                else Redirect ''/'' 307])"
proof -
  define state where "state = FormValue r ''state''"
  define ui where "ui = getUserInfo env a state tok"
  define um where "um = json_Unmarshal env (fst (snd ui))"
  define sg where "sg = store_Get (store a) r ''cookie-name''"
  define pre where "pre =
     [Exchange (FormValue r ''code''), Print ''--- state : '', Print ''--- code : ''] @ fst ui @
     (if snd (snd ui) \<noteq> None then [Log ''error: getUserInfo failed: ''] else []) @
     (if snd um \<noteq> None then [Log ''error: marshall of the userInfo failed: ''] else []) @
     [Print ''userInfo''] @
     (if snd sg \<noteq> None then [Log ''error: store.Get in /login failed: ''] else [])"
  define s where "s = (fst sg)
     \<lparr>Values := (Values (fst sg))
        (''authenticated'' \<mapsto> VBool True,
         ''id'' \<mapsto> VString (ID (fst um)),
         ''fullname'' \<mapsto> VString (FullName (fst um)),
         ''email'' \<mapsto> VString (Email (fst um)),
         ''state'' \<mapsto> VString state),
      Options := \<lparr>Path = [], MaxAge = 60 * 60 * 8\<rparr>\<rparr>"
  have q: "quiet pre"
    unfolding pre_def ui_def by (simp add: quiet_append quiet_Cons quiet_Nil getUserInfo_quiet)
  have "handleGoogleCallback env a r =
             (a, pre @ fst (session_Save env s) @
               [if snd (session_Save env s) \<noteq> None then Log ''error: session.Save on /login: ''
                else Redirect ''/'' 307])"
  proof (cases "snd (session_Save env s) = None")
    case True
    then show ?thesis
      unfolding handleGoogleCallback_def config_Exchange_def token_Valid_def Let_def split_beta
        pre_def s_def sg_def um_def ui_def state_def
      using ex valid by (simp split del: if_split cong: if_cong)
  next
    case False
    then show ?thesis
      unfolding handleGoogleCallback_def config_Exchange_def token_Valid_def Let_def split_beta
        pre_def s_def sg_def um_def ui_def state_def
      using ex valid by (simp split del: if_split cong: if_cong)
  qed
  with q show ?thesis by blast
qed

lemma fst_callback: "fst (handleGoogleCallback env a r) = a"
proof (cases "exchange env (googleOauthConfig a) (FormValue r ''code'')")
  case (Inl err)
  then show ?thesis by (simp add: callback_exchange_failed)
next
  case (Inr tok)
  show ?thesis
  proof (cases "tokenValid env tok")
    case True
    with Inr callback_token_valid [of env a r tok] show ?thesis by auto
  next
    case False
    with Inr show ?thesis by (simp add: callback_token_invalid)
  qed
qed

lemma save_failed_trace:
  assumes "quiet pre" and "encodeErr env (Values s) = Some e"
  shows "status_of (pre @ fst (session_Save env s) @
           [if snd (session_Save env s) \<noteq> None then Log m else Redirect ''/'' 307]) = (200, None)"
    and "cookies_sent (pre @ fst (session_Save env s) @
           [if snd (session_Save env s) \<noteq> None then Log m else Redirect ''/'' 307]) = []"
    and "saved_sessions (pre @ fst (session_Save env s) @
           [if snd (session_Save env s) \<noteq> None then Log m else Redirect ''/'' 307]) = [s]"
  using assms by (simp_all add: quiet_status quiet_cookies quiet_saved session_Save_def)

lemma save_done_trace:
  assumes "quiet pre" and "encodeErr env (Values s) = None"
  shows "status_of (pre @ fst (session_Save env s) @
           [if snd (session_Save env s) \<noteq> None then Log m else Redirect ''/'' 307]) = (307, Some ''/'')"
    and "cookies_sent (pre @ fst (session_Save env s) @
           [if snd (session_Save env s) \<noteq> None then Log m else Redirect ''/'' 307]) =
           [\<lparr>cookieName = Name s, cookieValues = Values s, cookieOptions = Options s\<rparr>]"
    and "saved_sessions (pre @ fst (session_Save env s) @
           [if snd (session_Save env s) \<noteq> None then Log m else Redirect ''/'' 307]) = [s]"
  using assms by (simp_all add: quiet_status quiet_cookies quiet_saved session_Save_def)

section \<open>Lemmas on the gate, on login and on logout\<close>

lemma gate_trace:
  "IsAuthenticated env a h r =
     (a, if Values (fst (store_Get (store a) r ''cookie-name'')) ''authenticated'' = Some (VBool True)
         then [Log ''--- Authenticated user accessing page is : '', Handler] @ h r
         else [HttpError ''Forbidden'' 403])"
  by (simp add: IsAuthenticated_def type_assert_bool_def split_beta split: option.split val.split)

lemma store_Get_absent:
  "Cookies r name = None \<Longrightarrow> Values (fst (store_Get st r name)) = Map.empty"
  "Cookies r name = Some Tampered \<Longrightarrow> Values (fst (store_Get st r name)) = Map.empty"
  by (simp_all add: store_Get_def newSession_def)

lemma store_Get_intact:
  "Cookies r name = Some (Intact vs) \<Longrightarrow>
     store_Get st r name = (\<lparr>Name = name, Values = vs, Options = StoreOptions st, IsNew = False\<rparr>, None)"
  by (simp add: store_Get_def newSession_def)

lemma store_Get_session:
  "Name (fst (store_Get st r name)) = name"
  "Options (fst (store_Get st r name)) = StoreOptions st"
  by (simp_all add: store_Get_def newSession_def split: option.split payload.split)

lemma next_request_none: "cookies_sent t = [] \<Longrightarrow> next_request r t = r"
  by (simp add: next_request_def)

lemma next_request_one:
  "cookies_sent t = [c] \<Longrightarrow>
     Cookies (next_request r t) (cookieName c) = Some (Intact (cookieValues c))"
  by (simp add: next_request_def)

lemma replicate_16: "replicate 16 x = [x, x, x, x, x, x, x, x, x, x, x, x, x, x, x, x]"
  by (simp add: numeral_eq_Suc)

lemma login_result:
  "login env a r =
     (a\<lparr>oauthStateString := EncodeToString (fst (createRandomKey env 16))\<rparr>,
      RandRead 16 #
      (if snd (createRandomKey env 16) \<noteq> None then [Log ''error: failed to create state string: ''] else []) @
      [Redirect (authCodeURL env (googleOauthConfig a) (EncodeToString (fst (createRandomKey env 16)))) 307])"
  by (simp add: login_def Let_def split_beta)

lemma logout_trace:
  "logout env a r =
     (a, (if snd (store_Get (store a) r ''cookie-name'') \<noteq> None
          then [Log ''error: store.Get in /logout: ''] else []) @
         fst (session_Save env (revoked (fst (store_Get (store a) r ''cookie-name'')))) @
         [if snd (session_Save env (revoked (fst (store_Get (store a) r ''cookie-name'')))) \<noteq> None
          then Log ''error: session.Save on /logout: '' else Redirect ''/'' 307])"
  by (simp add: logout_def revoked_def Let_def split_beta)

lemma quiet_get_log: "quiet (if c then [Log m] else [])"
  by (simp add: quiet_Cons quiet_Nil)

lemma revoked_fields:
  "Values (revoked s) ''authenticated'' = Some (VBool False)"
  "k \<noteq> ''authenticated'' \<Longrightarrow> Values (revoked s) k = Values s k"
  "Options (revoked s) = Options s"
  "Name (revoked s) = Name s"
  by (simp_all add: revoked_def)

lemma logout_saved:
  "saved_sessions (snd (logout env a r)) = [revoked (fst (store_Get (store a) r ''cookie-name''))]"
proof (cases "encodeErr env (Values (revoked (fst (store_Get (store a) r ''cookie-name''))))")
  case None
  show ?thesis unfolding logout_trace snd_conv by (rule save_done_trace(3) [OF quiet_get_log None])
next
  case (Some e)
  show ?thesis unfolding logout_trace snd_conv by (rule save_failed_trace(3) [OF quiet_get_log Some])
qed

lemma logout_save_failed:
  assumes "encodeErr env (Values (revoked (fst (store_Get (store a) r ''cookie-name'')))) = Some e"
  shows "status_of (snd (logout env a r)) = (200, None)"
    and "cookies_sent (snd (logout env a r)) = []"
  unfolding logout_trace snd_conv
  by (rule save_failed_trace(1) [OF quiet_get_log assms], rule save_failed_trace(2) [OF quiet_get_log assms])

lemma logout_save_done:
  assumes "encodeErr env (Values (revoked (fst (store_Get (store a) r ''cookie-name'')))) = None"
  shows "status_of (snd (logout env a r)) = (307, Some ''/'')"
    and "cookies_sent (snd (logout env a r)) =
           [\<lparr>cookieName = ''cookie-name'',
             cookieValues = Values (revoked (fst (store_Get (store a) r ''cookie-name''))),
             cookieOptions = StoreOptions (store a)\<rparr>]"
proof -
  show "status_of (snd (logout env a r)) = (307, Some ''/'')"
    unfolding logout_trace snd_conv by (rule save_done_trace(1) [OF quiet_get_log assms])
  have "cookies_sent (snd (logout env a r)) =
      [\<lparr>cookieName = Name (revoked (fst (store_Get (store a) r ''cookie-name''))),
        cookieValues = Values (revoked (fst (store_Get (store a) r ''cookie-name''))),
        cookieOptions = Options (revoked (fst (store_Get (store a) r ''cookie-name'')))\<rparr>]"
    unfolding logout_trace snd_conv by (rule save_done_trace(2) [OF quiet_get_log assms])
  then show "cookies_sent (snd (logout env a r)) =
           [\<lparr>cookieName = ''cookie-name'',
             cookieValues = Values (revoked (fst (store_Get (store a) r ''cookie-name''))),
             cookieOptions = StoreOptions (store a)\<rparr>]"
    by (simp add: revoked_fields store_Get_session)
qed

lemma logout_intact:
  assumes "Cookies r ''cookie-name'' = Some (Intact vs)"
      and "vs ''authenticated'' = Some (VBool False)"
      and "encodeErr env vs = None"
  shows "snd (logout env a r) =
    [SessionSave \<lparr>Name = ''cookie-name'', Values = vs, Options = StoreOptions (store a), IsNew = False\<rparr>,
     SetCookie \<lparr>cookieName = ''cookie-name'', cookieValues = vs, cookieOptions = StoreOptions (store a)\<rparr>,
     Redirect ''/'' 307]"
proof -
  have idem: "vs(''authenticated'' \<mapsto> VBool False) = vs"
    using assms(2) by (rule fun_upd_idem)
  show ?thesis
    by (simp add: logout_trace store_Get_intact [OF assms(1)] revoked_def idem session_Save_def assms(3))
qed

lemma logout_saved_value:
  "saved_values (snd (logout env a r)) ''authenticated'' = [Some (VBool False)]"
  by (simp add: saved_values_def logout_saved revoked_fields)

lemma callback_happy:
  assumes st: "FormValue r ''state'' = oauthStateString a"
      and ex: "exchange env (googleOauthConfig a) (FormValue r ''code'') = Inr tok"
      and valid: "tokenValid env tok"
      and fetch: "httpGet env (''https://www.googleapis.com/oauth2/v2/userinfo?access_token='' @ AccessToken tok) =
                    Inr (Inr body)"
      and prof: "json_Unmarshal env body = (profile, None)"
      and enc: "encodeErr env ((Values (fst (store_Get (store a) r ''cookie-name'')))
                  (''authenticated'' \<mapsto> VBool True,
                   ''id'' \<mapsto> VString (ID profile),
                   ''fullname'' \<mapsto> VString (FullName profile),
                   ''email'' \<mapsto> VString (Email profile),
                   ''state'' \<mapsto> VString (FormValue r ''state''))) = None"
  shows "cookies_sent (snd (handleGoogleCallback env a r)) =
           [\<lparr>cookieName = ''cookie-name'',
             cookieValues = (Values (fst (store_Get (store a) r ''cookie-name'')))
                  (''authenticated'' \<mapsto> VBool True,
                   ''id'' \<mapsto> VString (ID profile),
                   ''fullname'' \<mapsto> VString (FullName profile),
                   ''email'' \<mapsto> VString (Email profile),
                   ''state'' \<mapsto> VString (FormValue r ''state'')),
             cookieOptions = \<lparr>Path = [], MaxAge = 60 * 60 * 8\<rparr>\<rparr>]"
    and "status_of (snd (handleGoogleCallback env a r)) = (307, Some ''/'')"
proof -
  have g: "getUserInfo env a (FormValue r ''state'') tok =
     ([GetUserInfo (FormValue r ''state''), Print ''Token expire, '',
       HttpGet (''https://www.googleapis.com/oauth2/v2/userinfo?access_token='' @ AccessToken tok)],
      body, None)"
    using st fetch by (simp add: getUserInfo_def Let_def)
  have n: "Name (fst (store_Get (store a) r ''cookie-name'')) = ''cookie-name''"
    by (simp add: store_Get_session)
  have t: "snd (handleGoogleCallback env a r) =
     [Exchange (FormValue r ''code''), Print ''--- state : '', Print ''--- code : '',
      GetUserInfo (FormValue r ''state''), Print ''Token expire, '',
      HttpGet (''https://www.googleapis.com/oauth2/v2/userinfo?access_token='' @ AccessToken tok),
      Print ''userInfo''] @
     (if snd (store_Get (store a) r ''cookie-name'') \<noteq> None
      then [Log ''error: store.Get in /login failed: ''] else []) @
     [SessionSave ((fst (store_Get (store a) r ''cookie-name''))
        \<lparr>Values := (Values (fst (store_Get (store a) r ''cookie-name'')))
                  (''authenticated'' \<mapsto> VBool True,
                   ''id'' \<mapsto> VString (ID profile),
                   ''fullname'' \<mapsto> VString (FullName profile),
                   ''email'' \<mapsto> VString (Email profile),
                   ''state'' \<mapsto> VString (FormValue r ''state'')),
          Options := \<lparr>Path = [], MaxAge = 60 * 60 * 8\<rparr>\<rparr>),
      SetCookie \<lparr>cookieName = ''cookie-name'',
             cookieValues = (Values (fst (store_Get (store a) r ''cookie-name'')))
                  (''authenticated'' \<mapsto> VBool True,
                   ''id'' \<mapsto> VString (ID profile),
                   ''fullname'' \<mapsto> VString (FullName profile),
                   ''email'' \<mapsto> VString (Email profile),
                   ''state'' \<mapsto> VString (FormValue r ''state'')),
             cookieOptions = \<lparr>Path = [], MaxAge = 60 * 60 * 8\<rparr>\<rparr>,
      Redirect ''/'' 307]"
    unfolding handleGoogleCallback_def config_Exchange_def token_Valid_def Let_def split_beta
    using ex valid enc by (simp add: g prof session_Save_def n split del: if_split cong: if_cong)
  show "cookies_sent (snd (handleGoogleCallback env a r)) =
           [\<lparr>cookieName = ''cookie-name'',
             cookieValues = (Values (fst (store_Get (store a) r ''cookie-name'')))
                  (''authenticated'' \<mapsto> VBool True,
                   ''id'' \<mapsto> VString (ID profile),
                   ''fullname'' \<mapsto> VString (FullName profile),
                   ''email'' \<mapsto> VString (Email profile),
                   ''state'' \<mapsto> VString (FormValue r ''state'')),
             cookieOptions = \<lparr>Path = [], MaxAge = 60 * 60 * 8\<rparr>\<rparr>]"
    unfolding t by simp
  show "status_of (snd (handleGoogleCallback env a r)) = (307, Some ''/'')"
    unfolding t by simp
qed

section \<open>The claims\<close>

text \<open>
  Claim C1 fails on the code. With the state token \<open>S\<close> held, a callback with the state
  \<open>X\<close> and a code the provider accepts gets the error \<open>invalid oauth state\<close> from
  \<open>getUserInfo\<close>, which the handler logs without returning: no profile is requested,
  and a session with \<open>authenticated = true\<close> is saved and sent all the same.
\<close>

lemma callback_X_trace:
  "snd (handleGoogleCallback env_ok authS req_callback_X) =
     [Exchange ''abc'', Print ''--- state : '', Print ''--- code : '', GetUserInfo ''X'',
      Log ''error: getUserInfo failed: '', Log ''error: marshall of the userInfo failed: '',
      Print ''userInfo'',
      SessionSave \<lparr>Name = ''cookie-name'',
        Values = [''authenticated'' \<mapsto> VBool True, ''id'' \<mapsto> VString [],
                  ''fullname'' \<mapsto> VString [], ''email'' \<mapsto> VString [], ''state'' \<mapsto> VString ''X''],
        Options = \<lparr>Path = [], MaxAge = 28800\<rparr>, IsNew = True\<rparr>,
      SetCookie \<lparr>cookieName = ''cookie-name'',
        cookieValues = [''authenticated'' \<mapsto> VBool True, ''id'' \<mapsto> VString [],
                  ''fullname'' \<mapsto> VString [], ''email'' \<mapsto> VString [], ''state'' \<mapsto> VString ''X''],
        cookieOptions = \<lparr>Path = [], MaxAge = 28800\<rparr>\<rparr>,
      Redirect ''/'' 307]"
  by (simp add: handleGoogleCallback_def config_Exchange_def token_Valid_def getUserInfo_def
      json_Unmarshal_def zeroUserInfo_def store_Get_def newSession_def session_Save_def
      env_ok_def authS_def auth0_def NewAuth_def NewCookieStore_def newOauthConfig_def
      req_callback_X_def FormValue_def Let_def)

text \<open>
  Claim C1, at the failing input: the state differs from the one held, and the response
  carries a session cookie with \<open>authenticated = true\<close>.
\<close>

theorem state_mismatch_creates_session:
  "FormValue req_callback_X ''state'' \<noteq> oauthStateString authS \<and>
   filter is_profile_fetch (snd (handleGoogleCallback env_ok authS req_callback_X)) = [GetUserInfo ''X''] \<and>
   length (saved_sessions (snd (handleGoogleCallback env_ok authS req_callback_X))) = 1 \<and>
   sent_values (snd (handleGoogleCallback env_ok authS req_callback_X)) ''authenticated'' = [Some (VBool True)] \<and>
   sent_values (snd (handleGoogleCallback env_ok authS req_callback_X)) ''state'' = [Some (VString ''X'')] \<and>
   status_of (snd (handleGoogleCallback env_ok authS req_callback_X)) = (307, Some ''/'')"
  by (simp add: callback_X_trace sent_values_def) (simp add: req_callback_X_def FormValue_def authS_def)

text \<open>
  Claim C2. For every callback in which the authorization-code exchange fails, neither
  \<open>getUserInfo\<close> nor the request to the profile endpoint is made, \<open>session.Save\<close> is
  never called and no cookie is written; the response is the redirect to the root. (The
  failed exchange leaves a nil token, which \<open>Valid\<close> refuses, and the handler returns at
  the validity check.)
\<close>

theorem exchange_failure_short_circuits:
  assumes "exchange env (googleOauthConfig a) (FormValue r ''code'') = Inl err"
  shows "filter is_profile_fetch (snd (handleGoogleCallback env a r)) = [] \<and>
         filter is_session_save (snd (handleGoogleCallback env a r)) = [] \<and>
         saved_sessions (snd (handleGoogleCallback env a r)) = [] \<and>
         cookies_sent (snd (handleGoogleCallback env a r)) = [] \<and>
         status_of (snd (handleGoogleCallback env a r)) = (307, Some ''/'')"
  by (simp add: callback_exchange_failed [OF assms])

theorem exchange_failure_short_circuits_witness:
  "exchange env_ok (googleOauthConfig authS) (FormValue req_callback_bad_code ''code'') =
     Inl (GoError ''invalid_grant'') \<and>
   filter is_profile_fetch (snd (handleGoogleCallback env_ok authS req_callback_bad_code)) = [] \<and>
   filter is_session_save (snd (handleGoogleCallback env_ok authS req_callback_bad_code)) = [] \<and>
   saved_sessions (snd (handleGoogleCallback env_ok authS req_callback_bad_code)) = [] \<and>
   cookies_sent (snd (handleGoogleCallback env_ok authS req_callback_bad_code)) = [] \<and>
   status_of (snd (handleGoogleCallback env_ok authS req_callback_bad_code)) = (307, Some ''/'')"
proof -
  have h: "exchange env_ok (googleOauthConfig authS) (FormValue req_callback_bad_code ''code'') =
     Inl (GoError ''invalid_grant'')"
    by (simp add: env_ok_def req_callback_bad_code_def FormValue_def)
  show ?thesis using h exchange_failure_short_circuits [OF h] by simp
qed

text \<open>
  Claim C3 fails on the code. With a matching state and a valid token, a profile request
  that fails is logged only: the handler decodes the empty answer, keeps the zero profile
  and saves a session with \<open>authenticated = true\<close> whose \<open>id\<close> and \<open>email\<close> are empty.
\<close>

theorem fetch_failure_saves_empty_identity:
  "FormValue req_callback_S ''state'' = oauthStateString authS \<and>
   httpGet env_no_profile ''https://www.googleapis.com/oauth2/v2/userinfo?access_token=tok'' =
     Inl (GoError ''connection refused'') \<and>
   sent_values (snd (handleGoogleCallback env_no_profile authS req_callback_S)) ''authenticated'' = [Some (VBool True)] \<and>
   sent_values (snd (handleGoogleCallback env_no_profile authS req_callback_S)) ''id'' = [Some (VString [])] \<and>
   sent_values (snd (handleGoogleCallback env_no_profile authS req_callback_S)) ''email'' = [Some (VString [])]"
  by (simp add: handleGoogleCallback_def config_Exchange_def token_Valid_def getUserInfo_def
      json_Unmarshal_def zeroUserInfo_def store_Get_def newSession_def session_Save_def
      env_no_profile_def env_ok_def authS_def auth0_def NewAuth_def NewCookieStore_def newOauthConfig_def
      req_callback_S_def FormValue_def Let_def sent_values_def)

text \<open>
  Claim C4 fails on the code. When the random source fails, \<open>createRandomKey\<close> returns
  the error, but \<open>login\<close> only logs it: the state token becomes the encoding of no
  bytes, the empty string, and the redirect to the provider is issued with it.
\<close>

theorem login_without_entropy:
  "createRandomKey env_no_entropy 16 = ([], Some (GoError ''entropy source unavailable'')) \<and>
   login env_no_entropy auth0 req_empty =
     (auth0\<lparr>oauthStateString := []\<rparr>,
      [RandRead 16, Log ''error: failed to create state string: '',
       Redirect ''https://accounts.google.com/o/oauth2/auth?state='' 307])"
  by (simp add: login_def createRandomKey_def env_no_entropy_def env_ok_def auth0_def NewAuth_def
      NewCookieStore_def newOauthConfig_def Let_def)

text \<open>
  Claim C5. The gate invokes the wrapped handler exactly when the loaded session holds
  the boolean \<open>true\<close> under \<open>authenticated\<close>. In every other case (the value is
  missing, is not a boolean, or is \<open>false\<close>; in particular with no cookie or a cookie
  that fails the integrity check) it answers 403 Forbidden, the handler is not invoked, and
  no session is saved and no cookie written.
\<close>

theorem gate_fail_closed:
  "(Values (fst (store_Get (store a) r ''cookie-name'')) ''authenticated'' = Some (VBool True) \<longrightarrow>
      snd (IsAuthenticated env a h r) =
        [Log ''--- Authenticated user accessing page is : '', Handler] @ h r) \<and>
   (Values (fst (store_Get (store a) r ''cookie-name'')) ''authenticated'' \<noteq> Some (VBool True) \<longrightarrow>
      snd (IsAuthenticated env a h r) = [HttpError ''Forbidden'' 403] \<and>
      status_of (snd (IsAuthenticated env a h r)) = (403, None) \<and>
      filter is_handler_call (snd (IsAuthenticated env a h r)) = [] \<and>
      filter is_session_save (snd (IsAuthenticated env a h r)) = [] \<and>
      cookies_sent (snd (IsAuthenticated env a h r)) = []) \<and>
   (Cookies r ''cookie-name'' = None \<or> Cookies r ''cookie-name'' = Some Tampered \<longrightarrow>
      snd (IsAuthenticated env a h r) = [HttpError ''Forbidden'' 403])"
  by (auto simp: gate_trace store_Get_absent)

theorem gate_fail_closed_witness:
  "snd (IsAuthenticated env_ok authS (\<lambda>r. [Print ''page'']) req_logged_in) =
     [Log ''--- Authenticated user accessing page is : '', Handler, Print ''page''] \<and>
   snd (IsAuthenticated env_ok authS (\<lambda>r. [Print ''page'']) req_empty) = [HttpError ''Forbidden'' 403] \<and>
   filter is_handler_call (snd (IsAuthenticated env_ok authS (\<lambda>r. [Print ''page'']) req_empty)) = [] \<and>
   snd (IsAuthenticated env_ok authS (\<lambda>r. [Print ''page'']) req_wrong_type) = [HttpError ''Forbidden'' 403] \<and>
   status_of (snd (IsAuthenticated env_ok authS (\<lambda>r. [Print ''page'']) req_wrong_type)) = (403, None)"
proof -
  have h1: "Values (fst (store_Get (store authS) req_logged_in ''cookie-name'')) ''authenticated'' = Some (VBool True)"
    by (simp add: store_Get_def newSession_def req_logged_in_def)
  have h2: "Cookies req_empty ''cookie-name'' = None"
    by (simp add: req_empty_def)
  have h3: "Values (fst (store_Get (store authS) req_wrong_type ''cookie-name'')) ''authenticated'' \<noteq> Some (VBool True)"
    by (simp add: store_Get_def newSession_def req_wrong_type_def)
  from gate_fail_closed [of authS req_logged_in env_ok "\<lambda>r. [Print ''page'']"] h1
  have c1: "snd (IsAuthenticated env_ok authS (\<lambda>r. [Print ''page'']) req_logged_in) =
     [Log ''--- Authenticated user accessing page is : '', Handler, Print ''page'']"
    by simp
  from gate_fail_closed [of authS req_empty env_ok "\<lambda>r. [Print ''page'']"] h2
  have c2: "snd (IsAuthenticated env_ok authS (\<lambda>r. [Print ''page'']) req_empty) = [HttpError ''Forbidden'' 403]"
    by (elim conjE) simp
  from c2 have c2': "filter is_handler_call (snd (IsAuthenticated env_ok authS (\<lambda>r. [Print ''page'']) req_empty)) = []"
    by simp
  from gate_fail_closed [of authS req_wrong_type env_ok "\<lambda>r. [Print ''page'']"] h3
  have c3: "snd (IsAuthenticated env_ok authS (\<lambda>r. [Print ''page'']) req_wrong_type) = [HttpError ''Forbidden'' 403] \<and>
    status_of (snd (IsAuthenticated env_ok authS (\<lambda>r. [Print ''page'']) req_wrong_type)) = (403, None)"
    by (elim conjE) simp
  from c1 c2 c2' c3 show ?thesis by simp
qed

text \<open>
  Claim C6. After a login that issues the state token held in \<open>a1\<close>, a callback
  carrying that token and a code for which the provider returns a valid token and a
  profile sends one session cookie with \<open>authenticated = true\<close>, the \<open>id\<close>, \<open>email\<close> and
  \<open>fullname\<close> of the profile and a max-age of \<open>60 * 60 * 8\<close> seconds, and redirects to the
  root; a later protected call that presents this cookie reaches the wrapped handler.
\<close>

theorem happy_path:
  assumes init: "login env a r0 = (a1, t0)"
      and st: "FormValue r ''state'' = oauthStateString a1"
      and ex: "exchange env (googleOauthConfig a1) (FormValue r ''code'') = Inr tok"
      and valid: "tokenValid env tok"
      and fetch: "httpGet env (''https://www.googleapis.com/oauth2/v2/userinfo?access_token='' @ AccessToken tok) =
                    Inr (Inr body)"
      and prof: "json_Unmarshal env body = (profile, None)"
      and enc: "encodeErr env ((Values (fst (store_Get (store a1) r ''cookie-name'')))
                  (''authenticated'' \<mapsto> VBool True,
                   ''id'' \<mapsto> VString (ID profile),
                   ''fullname'' \<mapsto> VString (FullName profile),
                   ''email'' \<mapsto> VString (Email profile),
                   ''state'' \<mapsto> VString (FormValue r ''state''))) = None"
      and cb: "handleGoogleCallback env a1 r = (a2, t)"
  shows "status_of t0 = (307, Some (authCodeURL env (googleOauthConfig a) (oauthStateString a1))) \<and>
         status_of t = (307, Some ''/'') \<and>
         (\<exists>c. cookies_sent t = [c] \<and>
              cookieName c = ''cookie-name'' \<and>
              cookieValues c ''authenticated'' = Some (VBool True) \<and>
              cookieValues c ''id'' = Some (VString (ID profile)) \<and>
              cookieValues c ''email'' = Some (VString (Email profile)) \<and>
              cookieValues c ''fullname'' = Some (VString (FullName profile)) \<and>
              cookieValues c ''state'' = Some (VString (oauthStateString a1)) \<and>
              MaxAge (cookieOptions c) = 60 * 60 * 8) \<and>
         (\<forall>h r'. snd (IsAuthenticated env a2 h (next_request r' t)) =
              [Log ''--- Authenticated user accessing page is : '', Handler] @ h (next_request r' t))"
proof -
  define c where "c = \<lparr>cookieName = ''cookie-name'',
             cookieValues = (Values (fst (store_Get (store a1) r ''cookie-name'')))
                  (''authenticated'' \<mapsto> VBool True,
                   ''id'' \<mapsto> VString (ID profile),
                   ''fullname'' \<mapsto> VString (FullName profile),
                   ''email'' \<mapsto> VString (Email profile),
                   ''state'' \<mapsto> VString (FormValue r ''state'')),
             cookieOptions = \<lparr>Path = [], MaxAge = 60 * 60 * 8\<rparr>\<rparr>"
  have t: "t = snd (handleGoogleCallback env a1 r)" and a2: "a2 = a1"
    using cb fst_callback [of env a1 r] by simp_all
  have sent: "cookies_sent t = [c]"
    unfolding t c_def by (rule callback_happy(1) [OF st ex valid fetch prof enc])
  have status: "status_of t = (307, Some ''/'')"
    unfolding t by (rule callback_happy(2) [OF st ex valid fetch prof enc])
  have fields: "cookieName c = ''cookie-name''"
    "cookieValues c ''authenticated'' = Some (VBool True)"
    "cookieValues c ''id'' = Some (VString (ID profile))"
    "cookieValues c ''email'' = Some (VString (Email profile))"
    "cookieValues c ''fullname'' = Some (VString (FullName profile))"
    "cookieValues c ''state'' = Some (VString (oauthStateString a1))"
    "MaxAge (cookieOptions c) = 60 * 60 * 8"
    by (simp_all add: c_def st)
  have s0: "status_of t0 = (307, Some (authCodeURL env (googleOauthConfig a) (oauthStateString a1)))"
    using init by (auto simp: login_result)
  have gate: "snd (IsAuthenticated env a2 h (next_request r' t)) =
      [Log ''--- Authenticated user accessing page is : '', Handler] @ h (next_request r' t)" for h r'
  proof -
    have "Cookies (next_request r' t) ''cookie-name'' = Some (Intact (cookieValues c))"
      using next_request_one [OF sent, of r'] by (simp add: fields(1))
    then have "Values (fst (store_Get (store a2) (next_request r' t) ''cookie-name'')) ''authenticated'' =
        Some (VBool True)"
      by (simp add: store_Get_intact fields(2))
    then show ?thesis by (simp add: gate_trace)
  qed
  from s0 status sent fields gate show ?thesis by blast
qed

theorem happy_path_witness:
  "oauthStateString (fst (login env_ok auth0 req_empty)) = ''paWlpaWlpaWlpaWlpaWlpQ=='' \<and>
   status_of (snd (login env_ok auth0 req_empty)) =
     (307, Some ''https://accounts.google.com/o/oauth2/auth?state=paWlpaWlpaWlpaWlpaWlpQ=='') \<and>
   status_of (snd (handleGoogleCallback env_ok (fst (login env_ok auth0 req_empty)) req_callback_issued)) =
     (307, Some ''/'') \<and>
   sent_values (snd (handleGoogleCallback env_ok (fst (login env_ok auth0 req_empty)) req_callback_issued))
     ''authenticated'' = [Some (VBool True)] \<and>
   sent_values (snd (handleGoogleCallback env_ok (fst (login env_ok auth0 req_empty)) req_callback_issued))
     ''id'' = [Some (VString ''42'')] \<and>
   sent_values (snd (handleGoogleCallback env_ok (fst (login env_ok auth0 req_empty)) req_callback_issued))
     ''email'' = [Some (VString ''a@b.com'')] \<and>
   sent_values (snd (handleGoogleCallback env_ok (fst (login env_ok auth0 req_empty)) req_callback_issued))
     ''fullname'' = [Some (VString ''A B'')] \<and>
   map (\<lambda>c. MaxAge (cookieOptions c))
     (cookies_sent (snd (handleGoogleCallback env_ok (fst (login env_ok auth0 req_empty)) req_callback_issued))) =
     [28800] \<and>
   snd (IsAuthenticated env_ok
          (fst (handleGoogleCallback env_ok (fst (login env_ok auth0 req_empty)) req_callback_issued))
          (\<lambda>r. [Print ''page''])
          (next_request req_empty
             (snd (handleGoogleCallback env_ok (fst (login env_ok auth0 req_empty)) req_callback_issued)))) =
     [Log ''--- Authenticated user accessing page is : '', Handler, Print ''page'']"
proof -
  define a1 where "a1 = fst (login env_ok auth0 req_empty)"
  define t0 where "t0 = snd (login env_ok auth0 req_empty)"
  define a2 where "a2 = fst (handleGoogleCallback env_ok a1 req_callback_issued)"
  define t where "t = snd (handleGoogleCallback env_ok a1 req_callback_issued)"
  have k: "EncodeToString (fst (createRandomKey env_ok 16)) = ''paWlpaWlpaWlpaWlpaWlpQ==''"
    by (simp add: createRandomKey_def env_ok_def replicate_16 enc_def encodeURL_def Let_def)
  have s1: "oauthStateString a1 = ''paWlpaWlpaWlpaWlpaWlpQ==''"
    by (simp add: a1_def login_result k)
  have cfg: "googleOauthConfig a1 = googleOauthConfig auth0"
    by (simp add: a1_def login_result)
  have url: "authCodeURL env_ok (googleOauthConfig auth0) s = ''https://accounts.google.com/o/oauth2/auth?state='' @ s" for s
    by (simp add: env_ok_def auth0_def NewAuth_def newOauthConfig_def Let_def)
  have init: "login env_ok auth0 req_empty = (a1, t0)"
    by (simp add: a1_def t0_def)
  have st: "FormValue req_callback_issued ''state'' = oauthStateString a1"
    by (simp add: req_callback_issued_def FormValue_def a1_def)
  have code: "FormValue req_callback_issued ''code'' = ''abc''"
    by (simp add: req_callback_issued_def FormValue_def)
  have ex: "exchange env_ok (googleOauthConfig a1) (FormValue req_callback_issued ''code'') =
      Inr \<lparr>AccessToken = ''tok'', Expiry = 0\<rparr>"
    by (simp add: code env_ok_def)
  have valid: "tokenValid env_ok \<lparr>AccessToken = ''tok'', Expiry = 0\<rparr>"
    by (simp add: env_ok_def)
  have fetch: "httpGet env_ok (''https://www.googleapis.com/oauth2/v2/userinfo?access_token='' @
      AccessToken \<lparr>AccessToken = ''tok'', Expiry = 0\<rparr>) = Inr (Inr ''{profile}'')"
    by (simp add: env_ok_def)
  have prof: "json_Unmarshal env_ok ''{profile}'' = (profile42, None)"
    by (simp add: json_Unmarshal_def env_ok_def)
  have enc: "encodeErr env_ok vs = None" for vs
    by (simp add: env_ok_def)
  have cb: "handleGoogleCallback env_ok a1 req_callback_issued = (a2, t)"
    by (simp add: a2_def t_def)
  note hp = happy_path [OF init st ex valid fetch prof enc cb]
  from hp have c0: "status_of t0 = (307, Some ''https://accounts.google.com/o/oauth2/auth?state=paWlpaWlpaWlpaWlpaWlpQ=='')"
    by (simp add: url s1)
  from hp have c1: "status_of t = (307, Some ''/'')"
    by simp
  from hp have c2: "sent_values t ''authenticated'' = [Some (VBool True)] \<and>
      sent_values t ''id'' = [Some (VString ''42'')] \<and>
      sent_values t ''email'' = [Some (VString ''a@b.com'')] \<and>
      sent_values t ''fullname'' = [Some (VString ''A B'')] \<and>
      map (\<lambda>c. MaxAge (cookieOptions c)) (cookies_sent t) = [28800]"
    by (elim conjE exE) (simp add: sent_values_def profile42_def)
  from hp have c3: "snd (IsAuthenticated env_ok a2 (\<lambda>r. [Print ''page'']) (next_request req_empty t)) =
     [Log ''--- Authenticated user accessing page is : '', Handler, Print ''page'']"
    by (elim conjE) simp
  from s1 c0 c1 c2 c3 show ?thesis
    unfolding a1_def t0_def a2_def t_def by (intro conjI) (elim conjE, assumption)+
qed

text \<open>
  Claim C7, as stated, fails: a callback whose exchange succeeds with a token that is not
  valid returns at the validity check without writing a redirect, so the response is an
  empty 200.
\<close>

theorem callback_no_redirect_counterexample:
  "status_of (snd (handleGoogleCallback env_invalid_token authS req_callback_S)) = (200, None) \<and>
   status_of (snd (handleGoogleCallback env_invalid_token authS req_callback_S)) \<noteq> (307, Some ''/'')"
proof -
  have h: "exchange env_invalid_token (googleOauthConfig authS) (FormValue req_callback_S ''code'') =
     Inr \<lparr>AccessToken = ''tok'', Expiry = 0\<rparr>"
    by (simp add: env_invalid_token_def env_ok_def req_callback_S_def FormValue_def)
  have v: "\<not> tokenValid env_invalid_token \<lparr>AccessToken = ''tok'', Expiry = 0\<rparr>"
    by (simp add: env_invalid_token_def)
  show ?thesis by (simp add: callback_token_invalid [OF h v])
qed

text \<open>
  Claim C7, amended. A callback answers with the 307 redirect to \<open>/\<close> when the code
  exchange fails, and when the session save succeeds. When the exchange succeeds with a
  token that is not valid, the handler writes no header at all; when the token is valid,
  the session is handed to \<open>Save\<close> once and the redirect is written exactly when that
  save succeeds.
\<close>

theorem callback_response:
  "(\<forall>err. exchange env (googleOauthConfig a) (FormValue r ''code'') = Inl err \<longrightarrow>
      status_of (snd (handleGoogleCallback env a r)) = (307, Some ''/'')) \<and>
   (\<forall>tok. exchange env (googleOauthConfig a) (FormValue r ''code'') = Inr tok \<and> \<not> tokenValid env tok \<longrightarrow>
      status_of (snd (handleGoogleCallback env a r)) = (200, None) \<and>
      filter writes_header (snd (handleGoogleCallback env a r)) = []) \<and>
   (\<forall>tok. exchange env (googleOauthConfig a) (FormValue r ''code'') = Inr tok \<and> tokenValid env tok \<longrightarrow>
      (\<exists>s. saved_sessions (snd (handleGoogleCallback env a r)) = [s] \<and>
           status_of (snd (handleGoogleCallback env a r)) =
             (if encodeErr env (Values s) = None then (307, Some ''/'') else (200, None))))"
proof (intro conjI allI impI)
  fix err assume "exchange env (googleOauthConfig a) (FormValue r ''code'') = Inl err"
  then show "status_of (snd (handleGoogleCallback env a r)) = (307, Some ''/'')"
    by (simp add: callback_exchange_failed)
next
  fix tok assume "exchange env (googleOauthConfig a) (FormValue r ''code'') = Inr tok \<and> \<not> tokenValid env tok"
  then have eq: "handleGoogleCallback env a r =
    (a, [Exchange (FormValue r ''code''), Print ''--- state : '', Print ''--- code : '',
         Log ''error: token not valid in callback function. Token value = ''])"
    by (simp add: callback_token_invalid)
  show "status_of (snd (handleGoogleCallback env a r)) = (200, None)"
    by (simp add: eq)
  show "filter writes_header (snd (handleGoogleCallback env a r)) = []"
    by (simp add: eq)
next
  fix tok assume "exchange env (googleOauthConfig a) (FormValue r ''code'') = Inr tok \<and> tokenValid env tok"
  then obtain pre s where q: "quiet pre" and
    t: "handleGoogleCallback env a r =
             (a, pre @ fst (session_Save env s) @
               [if snd (session_Save env s) \<noteq> None then Log ''error: session.Save on /login: ''
                else Redirect ''/'' 307])"
    using callback_token_valid by blast
  show "\<exists>s. saved_sessions (snd (handleGoogleCallback env a r)) = [s] \<and>
           status_of (snd (handleGoogleCallback env a r)) =
             (if encodeErr env (Values s) = None then (307, Some ''/'') else (200, None))"
  proof (cases "encodeErr env (Values s)")
    case None
    then show ?thesis unfolding t using save_done_trace [OF q None] by simp
  next
    case (Some e)
    then show ?thesis unfolding t using save_failed_trace [OF q Some] by simp
  qed
qed

theorem callback_response_witness:
  "status_of (snd (handleGoogleCallback env_ok authS req_callback_bad_code)) = (307, Some ''/'') \<and>
   status_of (snd (handleGoogleCallback env_invalid_token authS req_callback_S)) = (200, None) \<and>
   status_of (snd (handleGoogleCallback env_ok authS req_callback_S)) = (307, Some ''/'') \<and>
   status_of (snd (handleGoogleCallback env_no_save authS req_callback_S)) = (200, None)"
proof -
  have h1: "exchange env_ok (googleOauthConfig authS) (FormValue req_callback_bad_code ''code'') =
     Inl (GoError ''invalid_grant'')"
    by (simp add: env_ok_def req_callback_bad_code_def FormValue_def)
  have h2: "exchange env_invalid_token (googleOauthConfig authS) (FormValue req_callback_S ''code'') =
     Inr \<lparr>AccessToken = ''tok'', Expiry = 0\<rparr> \<and>
     \<not> tokenValid env_invalid_token \<lparr>AccessToken = ''tok'', Expiry = 0\<rparr>"
    by (simp add: env_invalid_token_def env_ok_def req_callback_S_def FormValue_def)
  have h3: "exchange env_ok (googleOauthConfig authS) (FormValue req_callback_S ''code'') =
     Inr \<lparr>AccessToken = ''tok'', Expiry = 0\<rparr> \<and>
     tokenValid env_ok \<lparr>AccessToken = ''tok'', Expiry = 0\<rparr>"
    by (simp add: env_ok_def req_callback_S_def FormValue_def)
  have h4: "exchange env_no_save (googleOauthConfig authS) (FormValue req_callback_S ''code'') =
     Inr \<lparr>AccessToken = ''tok'', Expiry = 0\<rparr> \<and>
     tokenValid env_no_save \<lparr>AccessToken = ''tok'', Expiry = 0\<rparr>"
    by (simp add: env_no_save_def env_ok_def req_callback_S_def FormValue_def)
  have e3: "encodeErr env_ok vs = None" for vs
    by (simp add: env_ok_def)
  have e4: "encodeErr env_no_save vs \<noteq> None" for vs
    by (simp add: env_no_save_def)
  from callback_response [of env_ok authS req_callback_bad_code] h1
  have c1: "status_of (snd (handleGoogleCallback env_ok authS req_callback_bad_code)) = (307, Some ''/'')"
    by blast
  from callback_response [of env_invalid_token authS req_callback_S] h2
  have c2: "status_of (snd (handleGoogleCallback env_invalid_token authS req_callback_S)) = (200, None)"
    by blast
  from callback_response [of env_ok authS req_callback_S] h3
  have c3: "status_of (snd (handleGoogleCallback env_ok authS req_callback_S)) = (307, Some ''/'')"
    by (auto simp: e3)
  from callback_response [of env_no_save authS req_callback_S] h4
  have c4: "status_of (snd (handleGoogleCallback env_no_save authS req_callback_S)) = (200, None)"
    by (auto simp: e4)
  from c1 c2 c3 c4 show ?thesis by simp
qed

text \<open>
  Claim C8. \<open>logout\<close> hands exactly one session to \<open>Save\<close>: the loaded one with
  \<open>authenticated\<close> set to \<open>false\<close> and every other key, \<open>id\<close>, \<open>email\<close> and
  \<open>fullname\<close> among them, and the options unchanged. When the save fails, no header is
  written (no redirect) and no cookie is sent; when it succeeds, the cookie is sent and the
  response is the redirect to the root.
\<close>

theorem logout_behaviour:
  "\<exists>s. saved_sessions (snd (logout env a r)) = [s] \<and>
       Values s ''authenticated'' = Some (VBool False) \<and>
       Values s ''id'' = Values (fst (store_Get (store a) r ''cookie-name'')) ''id'' \<and>
       Values s ''email'' = Values (fst (store_Get (store a) r ''cookie-name'')) ''email'' \<and>
       Values s ''fullname'' = Values (fst (store_Get (store a) r ''cookie-name'')) ''fullname'' \<and>
       (\<forall>k. k \<noteq> ''authenticated'' \<longrightarrow>
            Values s k = Values (fst (store_Get (store a) r ''cookie-name'')) k) \<and>
       Options s = Options (fst (store_Get (store a) r ''cookie-name'')) \<and>
       (encodeErr env (Values s) \<noteq> None \<longrightarrow>
          status_of (snd (logout env a r)) = (200, None) \<and>
          cookies_sent (snd (logout env a r)) = []) \<and>
       (encodeErr env (Values s) = None \<longrightarrow>
          status_of (snd (logout env a r)) = (307, Some ''/'') \<and>
          cookies_sent (snd (logout env a r)) =
            [\<lparr>cookieName = ''cookie-name'', cookieValues = Values s, cookieOptions = Options s\<rparr>])"
proof (intro exI [of _ "revoked (fst (store_Get (store a) r ''cookie-name''))"] conjI allI impI)
  show "saved_sessions (snd (logout env a r)) = [revoked (fst (store_Get (store a) r ''cookie-name''))]"
    by (rule logout_saved)
next
  assume "encodeErr env (Values (revoked (fst (store_Get (store a) r ''cookie-name'')))) \<noteq> None"
  then obtain e where e: "encodeErr env (Values (revoked (fst (store_Get (store a) r ''cookie-name'')))) = Some e"
    by auto
  show "status_of (snd (logout env a r)) = (200, None)" by (rule logout_save_failed(1) [OF e])
  show "cookies_sent (snd (logout env a r)) = []" by (rule logout_save_failed(2) [OF e])
next
  assume e: "encodeErr env (Values (revoked (fst (store_Get (store a) r ''cookie-name'')))) = None"
  show "status_of (snd (logout env a r)) = (307, Some ''/'')" by (rule logout_save_done(1) [OF e])
  show "cookies_sent (snd (logout env a r)) =
     [\<lparr>cookieName = ''cookie-name'',
       cookieValues = Values (revoked (fst (store_Get (store a) r ''cookie-name''))),
       cookieOptions = Options (revoked (fst (store_Get (store a) r ''cookie-name'')))\<rparr>]"
    by (simp add: logout_save_done(2) [OF e] revoked_fields store_Get_session)
qed (simp_all add: revoked_fields)

theorem logout_behaviour_witness:
  "saved_values (snd (logout env_ok authS req_logged_in)) ''authenticated'' = [Some (VBool False)] \<and>
   saved_values (snd (logout env_ok authS req_logged_in)) ''id'' = [Some (VString ''42'')] \<and>
   saved_values (snd (logout env_ok authS req_logged_in)) ''email'' = [Some (VString ''a@b.com'')] \<and>
   saved_values (snd (logout env_ok authS req_logged_in)) ''fullname'' = [Some (VString ''A B'')] \<and>
   status_of (snd (logout env_ok authS req_logged_in)) = (307, Some ''/'') \<and>
   sent_values (snd (logout env_ok authS req_logged_in)) ''authenticated'' = [Some (VBool False)] \<and>
   saved_values (snd (logout env_no_save authS req_logged_in)) ''authenticated'' = [Some (VBool False)] \<and>
   status_of (snd (logout env_no_save authS req_logged_in)) = (200, None) \<and>
   cookies_sent (snd (logout env_no_save authS req_logged_in)) = []"
proof -
  have l: "Values (fst (store_Get (store authS) req_logged_in ''cookie-name'')) ''id'' = Some (VString ''42'')"
    "Values (fst (store_Get (store authS) req_logged_in ''cookie-name'')) ''email'' = Some (VString ''a@b.com'')"
    "Values (fst (store_Get (store authS) req_logged_in ''cookie-name'')) ''fullname'' = Some (VString ''A B'')"
    by (simp_all add: store_Get_def newSession_def req_logged_in_def)
  have e1: "encodeErr env_ok vs = None" for vs
    by (simp add: env_ok_def)
  have e2: "encodeErr env_no_save vs \<noteq> None" for vs
    by (simp add: env_no_save_def)
  from logout_behaviour [of env_ok authS req_logged_in]
  have c1: "saved_values (snd (logout env_ok authS req_logged_in)) ''authenticated'' = [Some (VBool False)] \<and>
   saved_values (snd (logout env_ok authS req_logged_in)) ''id'' = [Some (VString ''42'')] \<and>
   saved_values (snd (logout env_ok authS req_logged_in)) ''email'' = [Some (VString ''a@b.com'')] \<and>
   saved_values (snd (logout env_ok authS req_logged_in)) ''fullname'' = [Some (VString ''A B'')] \<and>
   status_of (snd (logout env_ok authS req_logged_in)) = (307, Some ''/'') \<and>
   sent_values (snd (logout env_ok authS req_logged_in)) ''authenticated'' = [Some (VBool False)]"
    by (elim exE conjE) (simp add: e1 l saved_values_def sent_values_def)
  from logout_behaviour [of env_no_save authS req_logged_in]
  have c2: "saved_values (snd (logout env_no_save authS req_logged_in)) ''authenticated'' = [Some (VBool False)] \<and>
   status_of (snd (logout env_no_save authS req_logged_in)) = (200, None) \<and>
   cookies_sent (snd (logout env_no_save authS req_logged_in)) = []"
    by (elim exE conjE) (simp add: e2 saved_values_def)
  from c1 c2 show ?thesis by simp
qed

text \<open>
  Claim C9. Two logouts in a row, the second presenting the cookies of the first answer:
  each hands a session with \<open>authenticated = false\<close> to \<open>Save\<close>. When the first logout
  has sent its cookie, the second one sends the same cookie, redirects to the root and logs
  no error; when the first one could not save, the second one behaves exactly as the first.
  Whenever the store can encode the revoked session, the cookie that each of the two calls
  sends holds \<open>authenticated = false\<close>, both calls redirect to the root, the second logs
  no error, and the gate answers Forbidden to a request presenting the cookies received
  after the first call and after the second.
\<close>

theorem logout_idempotent:
  "saved_values (snd (logout env a r)) ''authenticated'' = [Some (VBool False)] \<and>
   saved_values (snd (logout env (fst (logout env a r)) (next_request r (snd (logout env a r)))))
     ''authenticated'' = [Some (VBool False)] \<and>
   (cookies_sent (snd (logout env a r)) \<noteq> [] \<longrightarrow>
      cookies_sent (snd (logout env (fst (logout env a r)) (next_request r (snd (logout env a r))))) =
        cookies_sent (snd (logout env a r)) \<and>
      status_of (snd (logout env (fst (logout env a r)) (next_request r (snd (logout env a r))))) =
        (307, Some ''/'') \<and>
      filter is_log (snd (logout env (fst (logout env a r)) (next_request r (snd (logout env a r))))) = []) \<and>
   (cookies_sent (snd (logout env a r)) = [] \<longrightarrow>
      snd (logout env (fst (logout env a r)) (next_request r (snd (logout env a r)))) =
        snd (logout env a r)) \<and>
   (encodeErr env ((Values (fst (store_Get (store a) r ''cookie-name'')))(''authenticated'' \<mapsto> VBool False)) = None \<longrightarrow>
      sent_values (snd (logout env a r)) ''authenticated'' = [Some (VBool False)] \<and>
      status_of (snd (logout env a r)) = (307, Some ''/'') \<and>
      sent_values (snd (logout env (fst (logout env a r)) (next_request r (snd (logout env a r)))))
        ''authenticated'' = [Some (VBool False)] \<and>
      status_of (snd (logout env (fst (logout env a r)) (next_request r (snd (logout env a r))))) =
        (307, Some ''/'') \<and>
      filter is_log (snd (logout env (fst (logout env a r)) (next_request r (snd (logout env a r))))) = [] \<and>
      (\<forall>h. snd (IsAuthenticated env (fst (logout env a r)) h (next_request r (snd (logout env a r)))) =
            [HttpError ''Forbidden'' 403]) \<and>
      (\<forall>h. snd (IsAuthenticated env (fst (logout env a r)) h
                 (next_request (next_request r (snd (logout env a r)))
                    (snd (logout env (fst (logout env a r)) (next_request r (snd (logout env a r))))))) =
            [HttpError ''Forbidden'' 403]))"
proof -
  define t1 where "t1 = snd (logout env a r)"
  define s where "s = revoked (fst (store_Get (store a) r ''cookie-name''))"
  define t2 where "t2 = snd (logout env a (next_request r t1))"
  have a1: "fst (logout env a r) = a"
    by (simp add: logout_trace)
  have vs: "Values s = (Values (fst (store_Get (store a) r ''cookie-name'')))(''authenticated'' \<mapsto> VBool False)"
    by (simp add: s_def revoked_def)
  have sa: "Values s ''authenticated'' = Some (VBool False)"
    by (simp add: s_def revoked_fields)
  have first_ok: "cookies_sent t1 =
        [\<lparr>cookieName = ''cookie-name'', cookieValues = Values s, cookieOptions = StoreOptions (store a)\<rparr>] \<and>
      status_of t1 = (307, Some ''/'') \<and>
      t2 = [SessionSave \<lparr>Name = ''cookie-name'', Values = Values s, Options = StoreOptions (store a), IsNew = False\<rparr>,
            SetCookie \<lparr>cookieName = ''cookie-name'', cookieValues = Values s, cookieOptions = StoreOptions (store a)\<rparr>,
            Redirect ''/'' 307]"
    if ok: "encodeErr env (Values s) = None"
  proof -
    have c: "cookies_sent t1 =
        [\<lparr>cookieName = ''cookie-name'', cookieValues = Values s, cookieOptions = StoreOptions (store a)\<rparr>]"
      unfolding t1_def s_def by (rule logout_save_done(2)) (use ok in \<open>simp add: s_def\<close>)
    have st: "status_of t1 = (307, Some ''/'')"
      unfolding t1_def by (rule logout_save_done(1)) (use ok in \<open>simp add: s_def\<close>)
    have "Cookies (next_request r t1) ''cookie-name'' = Some (Intact (Values s))"
      using next_request_one [OF c, of r] by simp
    then have "t2 =
      [SessionSave \<lparr>Name = ''cookie-name'', Values = Values s, Options = StoreOptions (store a), IsNew = False\<rparr>,
       SetCookie \<lparr>cookieName = ''cookie-name'', cookieValues = Values s, cookieOptions = StoreOptions (store a)\<rparr>,
       Redirect ''/'' 307]"
      unfolding t2_def by (rule logout_intact) (simp_all add: sa ok)
    with c st show ?thesis by simp
  qed
  have again: "cookies_sent t2 = cookies_sent t1 \<and> status_of t2 = (307, Some ''/'') \<and> filter is_log t2 = []"
    if sent: "cookies_sent t1 \<noteq> []"
  proof -
    have ok: "encodeErr env (Values s) = None"
    proof (cases "encodeErr env (Values s)")
      case None
      then show ?thesis .
    next
      case (Some e)
      then have "cookies_sent t1 = []"
        unfolding t1_def s_def by (rule logout_save_failed(2))
      with sent show ?thesis by simp
    qed
    from first_ok [OF ok] show ?thesis by simp
  qed
  have same: "t2 = t1" if "cookies_sent t1 = []"
    using that by (simp add: next_request_none t1_def t2_def)
  have rejected: "snd (IsAuthenticated env a h r') = [HttpError ''Forbidden'' 403]"
    if "Cookies r' ''cookie-name'' = Some (Intact (Values s))" for h r'
    by (simp add: gate_trace store_Get_intact [OF that] sa)
  have revoked_end: "sent_values t1 ''authenticated'' = [Some (VBool False)] \<and>
      status_of t1 = (307, Some ''/'') \<and>
      sent_values t2 ''authenticated'' = [Some (VBool False)] \<and>
      status_of t2 = (307, Some ''/'') \<and>
      filter is_log t2 = [] \<and>
      (\<forall>h. snd (IsAuthenticated env a h (next_request r t1)) = [HttpError ''Forbidden'' 403]) \<and>
      (\<forall>h. snd (IsAuthenticated env a h (next_request (next_request r t1) t2)) = [HttpError ''Forbidden'' 403])"
    if ok: "encodeErr env (Values s) = None"
  proof -
    note d = first_ok [OF ok]
    from d have c1: "cookies_sent t1 =
        [\<lparr>cookieName = ''cookie-name'', cookieValues = Values s, cookieOptions = StoreOptions (store a)\<rparr>]"
      by simp
    from d have c2: "cookies_sent t2 =
        [\<lparr>cookieName = ''cookie-name'', cookieValues = Values s, cookieOptions = StoreOptions (store a)\<rparr>]"
      by simp
    have k1: "Cookies (next_request r t1) ''cookie-name'' = Some (Intact (Values s))"
      using next_request_one [OF c1, of r] by simp
    have k2: "Cookies (next_request (next_request r t1) t2) ''cookie-name'' = Some (Intact (Values s))"
      using next_request_one [OF c2, of "next_request r t1"] by simp
    from d have "sent_values t1 ''authenticated'' = [Some (VBool False)]"
      "status_of t1 = (307, Some ''/'')"
      "sent_values t2 ''authenticated'' = [Some (VBool False)]"
      "status_of t2 = (307, Some ''/'')"
      "filter is_log t2 = []"
      by (simp_all add: sent_values_def sa)
    with rejected [OF k1] rejected [OF k2] show ?thesis by simp
  qed
  have sv: "saved_values t1 ''authenticated'' = [Some (VBool False)]"
    "saved_values t2 ''authenticated'' = [Some (VBool False)]"
    by (simp_all add: t1_def t2_def logout_saved_value)
  show ?thesis
    unfolding a1 t2_def [symmetric, unfolded t1_def] t1_def [symmetric] vs [symmetric]
    using sv again same revoked_end by (intro conjI impI) (simp_all add: t2_def [symmetric])
qed

theorem logout_idempotent_witness:
  "cookies_sent (snd (logout env_ok authS req_logged_in)) \<noteq> [] \<and>
   saved_values (snd (logout env_ok authS req_logged_in)) ''authenticated'' = [Some (VBool False)] \<and>
   saved_values (snd (logout env_ok (fst (logout env_ok authS req_logged_in))
      (next_request req_logged_in (snd (logout env_ok authS req_logged_in))))) ''authenticated'' =
     [Some (VBool False)] \<and>
   cookies_sent (snd (logout env_ok (fst (logout env_ok authS req_logged_in))
      (next_request req_logged_in (snd (logout env_ok authS req_logged_in))))) =
     cookies_sent (snd (logout env_ok authS req_logged_in)) \<and>
   status_of (snd (logout env_ok (fst (logout env_ok authS req_logged_in))
      (next_request req_logged_in (snd (logout env_ok authS req_logged_in))))) = (307, Some ''/'') \<and>
   filter is_log (snd (logout env_ok (fst (logout env_ok authS req_logged_in))
      (next_request req_logged_in (snd (logout env_ok authS req_logged_in))))) = [] \<and>
   sent_values (snd (logout env_ok authS req_logged_in)) ''authenticated'' = [Some (VBool False)] \<and>
   sent_values (snd (logout env_ok (fst (logout env_ok authS req_logged_in))
      (next_request req_logged_in (snd (logout env_ok authS req_logged_in))))) ''authenticated'' =
     [Some (VBool False)] \<and>
   snd (IsAuthenticated env_ok (fst (logout env_ok authS req_logged_in)) (\<lambda>r. [Print ''page''])
      (next_request req_logged_in (snd (logout env_ok authS req_logged_in)))) = [HttpError ''Forbidden'' 403] \<and>
   snd (IsAuthenticated env_ok (fst (logout env_ok authS req_logged_in)) (\<lambda>r. [Print ''page''])
      (next_request (next_request req_logged_in (snd (logout env_ok authS req_logged_in)))
         (snd (logout env_ok (fst (logout env_ok authS req_logged_in))
      (next_request req_logged_in (snd (logout env_ok authS req_logged_in))))))) = [HttpError ''Forbidden'' 403] \<and>
   cookies_sent (snd (logout env_no_save authS req_logged_in)) = [] \<and>
   snd (logout env_no_save (fst (logout env_no_save authS req_logged_in))
      (next_request req_logged_in (snd (logout env_no_save authS req_logged_in)))) =
     snd (logout env_no_save authS req_logged_in)"
proof -
  have ne: "cookies_sent (snd (logout env_ok authS req_logged_in)) \<noteq> []"
    by (simp add: logout_save_done(2) env_ok_def)
  have ok: "encodeErr env_ok ((Values (fst (store_Get (store authS) req_logged_in ''cookie-name'')))
      (''authenticated'' \<mapsto> VBool False)) = None"
    by (simp add: env_ok_def)
  have em: "cookies_sent (snd (logout env_no_save authS req_logged_in)) = []"
    by (rule logout_save_failed(2)) (simp add: env_no_save_def)
  from logout_idempotent [of env_ok authS req_logged_in] ne ok
  have c1: "saved_values (snd (logout env_ok authS req_logged_in)) ''authenticated'' = [Some (VBool False)] \<and>
   saved_values (snd (logout env_ok (fst (logout env_ok authS req_logged_in))
      (next_request req_logged_in (snd (logout env_ok authS req_logged_in))))) ''authenticated'' =
     [Some (VBool False)] \<and>
   cookies_sent (snd (logout env_ok (fst (logout env_ok authS req_logged_in))
      (next_request req_logged_in (snd (logout env_ok authS req_logged_in))))) =
     cookies_sent (snd (logout env_ok authS req_logged_in)) \<and>
   status_of (snd (logout env_ok (fst (logout env_ok authS req_logged_in))
      (next_request req_logged_in (snd (logout env_ok authS req_logged_in))))) = (307, Some ''/'') \<and>
   filter is_log (snd (logout env_ok (fst (logout env_ok authS req_logged_in))
      (next_request req_logged_in (snd (logout env_ok authS req_logged_in))))) = [] \<and>
   sent_values (snd (logout env_ok authS req_logged_in)) ''authenticated'' = [Some (VBool False)] \<and>
   sent_values (snd (logout env_ok (fst (logout env_ok authS req_logged_in))
      (next_request req_logged_in (snd (logout env_ok authS req_logged_in))))) ''authenticated'' =
     [Some (VBool False)] \<and>
   snd (IsAuthenticated env_ok (fst (logout env_ok authS req_logged_in)) (\<lambda>r. [Print ''page''])
      (next_request req_logged_in (snd (logout env_ok authS req_logged_in)))) = [HttpError ''Forbidden'' 403] \<and>
   snd (IsAuthenticated env_ok (fst (logout env_ok authS req_logged_in)) (\<lambda>r. [Print ''page''])
      (next_request (next_request req_logged_in (snd (logout env_ok authS req_logged_in)))
         (snd (logout env_ok (fst (logout env_ok authS req_logged_in))
      (next_request req_logged_in (snd (logout env_ok authS req_logged_in))))))) = [HttpError ''Forbidden'' 403]"
    by (elim conjE) (intro conjI, simp_all)
  from logout_idempotent [of env_no_save authS req_logged_in] em
  have c2: "snd (logout env_no_save (fst (logout env_no_save authS req_logged_in))
      (next_request req_logged_in (snd (logout env_no_save authS req_logged_in)))) =
     snd (logout env_no_save authS req_logged_in)"
    by (elim conjE) simp
  from ne em c1 c2 show ?thesis by (intro conjI) (elim conjE, assumption)+
qed

text \<open>
  Claim C10. \<open>logout\<close>, \<open>handleGoogleCallback\<close> and the wrapper \<open>IsAuthenticated\<close>
  leave the \<open>Auth\<close> value as it is; \<open>login\<close> writes \<open>oauthStateString\<close> and nothing
  else: \<open>googleOauthConfig\<close> and \<open>store\<close> are unchanged.
\<close>

theorem auth_frame:
  "fst (logout env a r) = a \<and>
   fst (handleGoogleCallback env a r) = a \<and>
   fst (IsAuthenticated env a h r) = a \<and>
   fst (login env a r) = a\<lparr>oauthStateString := EncodeToString (fst (createRandomKey env 16))\<rparr> \<and>
   googleOauthConfig (fst (login env a r)) = googleOauthConfig a \<and>
   store (fst (login env a r)) = store a"
  by (simp add: fst_callback gate_trace) (simp add: logout_def login_def Let_def split_beta)

theorem auth_frame_witness:
  "fst (logout env_ok authS req_logged_in) = authS \<and>
   fst (handleGoogleCallback env_ok authS req_callback_S) = authS \<and>
   fst (IsAuthenticated env_ok authS (\<lambda>r. [Print ''page'']) req_logged_in) = authS \<and>
   oauthStateString (fst (login env_ok authS req_empty)) = ''paWlpaWlpaWlpaWlpaWlpQ=='' \<and>
   googleOauthConfig (fst (login env_ok authS req_empty)) = googleOauthConfig authS \<and>
   store (fst (login env_ok authS req_empty)) = store authS"
proof -
  have k: "EncodeToString (fst (createRandomKey env_ok 16)) = ''paWlpaWlpaWlpaWlpaWlpQ==''"
    by (simp add: createRandomKey_def env_ok_def replicate_16 enc_def encodeURL_def Let_def)
  from auth_frame [of env_ok authS req_logged_in "\<lambda>r. [Print ''page'']"]
       auth_frame [of env_ok authS req_callback_S "\<lambda>r. [Print ''page'']"]
       auth_frame [of env_ok authS req_empty "\<lambda>r. [Print ''page'']"] k
  show ?thesis by simp
qed

end
